theory Spec2Isabelle
  imports Complex_Main "HOL-Library.Log_Nat"
begin

section \<open>Level retest scanner: the data model\<close>

text \<open>
  The price table handed to \<^verbatim>\<open>atr\<close> and \<^verbatim>\<open>find_breakout_retests\<close> is a pandas DataFrame
  with a time index and the columns Open, High, Low, Close and Volume (the names
  \<^verbatim>\<open>fetch_data\<close> title-cases). It is a list of rows here, so every column has the length
  of the table. \<^verbatim>\<open>fetch_data\<close> drops every row holding a NaN, so a cell is a number: a
  real here, of which the code only ever sees those that are 64-bit floats. The index
  holds the timestamps as integers.

  The arithmetic of the scanner is that of the 64-bit floats, defined in the next
  section: every sum, product and quotient it computes is rounded to the nearest
  float, overflows to an infinity, and the comparisons are those of the floats. The
  volatility estimator is the series of real numbers it stands for: the rolling mean of
  pandas is computed by a running compensated sum inside the library, and neither its
  rounding nor its overflow is part of this development.
\<close>

record bar =
  Time :: int
  Open :: real
  High :: real
  Low :: real
  Close :: real
  Volume :: real

text \<open>
  The exceptions the two functions can meet: an \<^verbatim>\<open>.iloc\<close> read or an index read out of
  range, and the refusal of \<^verbatim>\<open>rolling\<close> to take a window shorter than \<^verbatim>\<open>min_periods\<close>.
\<close>

datatype error = IndexError | ValueError

text \<open>
  One row of the returned table: the dictionary appended to \<^verbatim>\<open>results\<close>, with the keys of the
  source. The key \<^verbatim>\<open>level\<close> is the field \<open>event_level\<close>, since \<open>level\<close> names the
  argument everywhere below. A float field that the code can fill with a value that is
  no number (the shifted close starts with NaN; numpy divides by zero without raising and
  gives an infinity or NaN; a product can overflow) has an optional value, \<open>None\<close>
  standing for such a value.
\<close>

record event =
  breakout_time :: int
  retest_time :: int
  takeoff_time :: int
  event_level :: real
  close_at_takeoff :: real
  return_from_level_pct :: "real option"
  bars_to_retest :: int
  bars_to_takeoff :: int
  atr_at_takeoff :: "real option"

section \<open>Binary64 arithmetic\<close>

text \<open>
  A value of a float expression: a finite number, an infinity, or NaN. The two zeros of
  the format are one number here; they differ only in the sign of a quotient by zero.
\<close>

datatype fp = Fin real | PInf | NInf | NaN

definition pow2 :: "int \<Rightarrow> real" where
  "pow2 e = (if 0 \<le> e then 2 ^ nat e else 1 / 2 ^ nat (- e))"

text \<open>The exponent \<open>e\<close> with \<open>2 ^ e \<le> \<bar>x\<bar> < 2 ^ (e + 1)\<close>, for \<open>x\<close> other than 0.\<close>

definition binade :: "real \<Rightarrow> int" where
  "binade x =
     (if 1 \<le> \<bar>x\<bar> then bitlen \<lfloor>\<bar>x\<bar>\<rfloor> - 1 else - bitlen (\<lceil>1 / \<bar>x\<bar>\<rceil> - 1))"

text \<open>The nearest integer, a tie going to the even one.\<close>

definition round_half_even :: "real \<Rightarrow> int" where
  "round_half_even y =
     (let f = \<lfloor>y\<rfloor>; d = y - of_int f
      in if d < 1 / 2 then f else if 1 / 2 < d then f + 1 else if even f then f else f + 1)"

text \<open>
  Rounding to nearest, ties to even, with 53 significant bits, the least exponent of a
  unit in the last place \<open>- 1074\<close> (subnormal numbers), and overflow to an infinity once
  the rounded magnitude reaches \<open>2 ^ 1024\<close>.
\<close>

definition rnd :: "real \<Rightarrow> fp" where
  "rnd x =
     (if x = 0 then Fin 0
      else let q = max (- 1074) (binade x - 52);
               y = of_int (round_half_even (x / pow2 q)) * pow2 q
           in if pow2 1024 \<le> \<bar>y\<bar> then (if 0 < x then PInf else NInf) else Fin y)"

text \<open>The float a decimal literal of the source denotes (for a literal in range).\<close>

definition dbl :: "real \<Rightarrow> real" where
  "dbl x = (case rnd x of Fin y \<Rightarrow> y | _ \<Rightarrow> 0)"

fun fneg :: "fp \<Rightarrow> fp" where
  "fneg (Fin x) = Fin (- x)"
| "fneg PInf = NInf"
| "fneg NInf = PInf"
| "fneg NaN = NaN"

fun fadd :: "fp \<Rightarrow> fp \<Rightarrow> fp" where
  "fadd (Fin x) (Fin y) = rnd (x + y)"
| "fadd NaN _ = NaN"
| "fadd _ NaN = NaN"
| "fadd PInf NInf = NaN"
| "fadd NInf PInf = NaN"
| "fadd PInf _ = PInf"
| "fadd _ PInf = PInf"
| "fadd NInf _ = NInf"
| "fadd _ NInf = NInf"

definition fsub :: "fp \<Rightarrow> fp \<Rightarrow> fp" where
  "fsub a b = fadd a (fneg b)"

text \<open>The sign of a product with an infinity; an infinity times zero is NaN.\<close>

definition inf_times :: "bool \<Rightarrow> real \<Rightarrow> fp" where
  "inf_times positive x =
     (if x = 0 then NaN else if (0 < x) = positive then PInf else NInf)"

fun fmul :: "fp \<Rightarrow> fp \<Rightarrow> fp" where
  "fmul (Fin x) (Fin y) = rnd (x * y)"
| "fmul NaN _ = NaN"
| "fmul _ NaN = NaN"
| "fmul PInf (Fin y) = inf_times True y"
| "fmul NInf (Fin y) = inf_times False y"
| "fmul (Fin x) PInf = inf_times True x"
| "fmul (Fin x) NInf = inf_times False x"
| "fmul PInf PInf = PInf"
| "fmul NInf NInf = PInf"
| "fmul PInf NInf = NInf"
| "fmul NInf PInf = NInf"

text \<open>
  The quotient as numpy computes it: no exception on a zero divisor but an infinity, or
  NaN for \<open>0 / 0\<close>. The divisor zero is taken as the positive one.
\<close>

fun fdiv :: "fp \<Rightarrow> fp \<Rightarrow> fp" where
  "fdiv (Fin x) (Fin y) =
     (if y = 0 then (if x = 0 then NaN else if 0 < x then PInf else NInf) else rnd (x / y))"
| "fdiv NaN _ = NaN"
| "fdiv _ NaN = NaN"
| "fdiv (Fin x) _ = Fin 0"
| "fdiv PInf (Fin y) = (if 0 \<le> y then PInf else NInf)"
| "fdiv NInf (Fin y) = (if 0 \<le> y then NInf else PInf)"
| "fdiv _ _ = NaN"

text \<open>The comparisons \<^verbatim>\<open><=\<close> and \<^verbatim>\<open><\<close>: false as soon as one side is NaN.\<close>

fun fle :: "fp \<Rightarrow> fp \<Rightarrow> bool" where
  "fle (Fin x) (Fin y) = (x \<le> y)"
| "fle NaN _ = False"
| "fle _ NaN = False"
| "fle NInf _ = True"
| "fle _ PInf = True"
| "fle _ _ = False"

fun flt :: "fp \<Rightarrow> fp \<Rightarrow> bool" where
  "flt (Fin x) (Fin y) = (x < y)"
| "flt NaN _ = False"
| "flt _ NaN = False"
| "flt PInf _ = False"
| "flt _ NInf = False"
| "flt _ _ = True"

text \<open>
  A float read from a series (\<open>None\<close> is NaN there), and a float written to a field of
  an event (\<open>None\<close> is a value that is no number: NaN or an infinity).
\<close>

definition of_opt :: "real option \<Rightarrow> fp" where
  "of_opt v = (case v of None \<Rightarrow> NaN | Some x \<Rightarrow> Fin x)"

fun finite_of :: "fp \<Rightarrow> real option" where
  "finite_of (Fin x) = Some x"
| "finite_of _ = None"

section \<open>Reads and arithmetic of the libraries\<close>

text \<open>\<^verbatim>\<open>s.iloc[i]\<close> and \<^verbatim>\<open>df.index[i]\<close> at a position that is never negative here.\<close>

definition iloc :: "'a list \<Rightarrow> nat \<Rightarrow> error + 'a" where
  "iloc xs i = (if i < length xs then Inr (xs ! i) else Inl IndexError)"

text \<open>\<^verbatim>\<open>close.shift(1)\<close>: same length, NaN in front, the last value dropped.\<close>

definition shift1 :: "real list \<Rightarrow> real option list" where
  "shift1 xs = take (length xs) (None # map Some xs)"

text \<open>
  \<^verbatim>\<open>(x - y).abs()\<close> on one row; NaN in, NaN out. The difference is the real one: the
  estimator is carried over the reals, with no rounding and no overflow.
\<close>

definition abs_diff :: "real option \<Rightarrow> real option \<Rightarrow> real option" where
  "abs_diff x y =
     (case x of None \<Rightarrow> None
      | Some u \<Rightarrow> (case y of None \<Rightarrow> None | Some v \<Rightarrow> Some \<bar>u - v\<bar>))"

text \<open>
  \<^verbatim>\<open>.max(axis=1)\<close> on one row of the concatenated frame: pandas skips NaN by default and
  gives NaN only for a row with nothing else.
\<close>

definition row_max :: "real option list \<Rightarrow> real option" where
  "row_max vs =
     (case List.map_filter id vs of [] \<Rightarrow> None | w # ws \<Rightarrow> Some (fold max ws w))"

text \<open>
  \<^verbatim>\<open>.rolling(n, min_periods=1).mean()\<close>: the window at position \<open>k\<close> holds the positions
  \<open>max 0 (k - n + 1)\<close> to \<open>k\<close>; its mean is taken over the values that are numbers and is
  NaN when there are fewer than \<^verbatim>\<open>min_periods\<close> of them. pandas raises ValueError when the
  window is shorter than \<^verbatim>\<open>min_periods\<close>, whatever the series holds. The mean is the real
  one; the float that the kernel of pandas returns for it is not modelled.
\<close>

definition window :: "int \<Rightarrow> 'a list \<Rightarrow> nat \<Rightarrow> 'a list" where
  "window n xs k = drop (nat (int k - n + 1)) (take (Suc k) xs)"

definition window_mean :: "real option list \<Rightarrow> real option" where
  "window_mean w =
     (let obs = List.map_filter id w
      in if 1 \<le> length obs then Some (sum_list obs / real (length obs)) else None)"

definition rolling_mean :: "int \<Rightarrow> real option list \<Rightarrow> error + real option list" where
  "rolling_mean n xs =
     (if n < 1 then Inl ValueError
      else Inr (map (\<lambda>k. window_mean (window n xs k)) [0..<length xs]))"

text \<open>
  Python's \<^verbatim>\<open>max(threshold, x)\<close> keeps its first argument unless the second compares
  greater; a NaN never does.
\<close>

definition py_max :: "fp \<Rightarrow> fp \<Rightarrow> fp" where
  "py_max t x = (if flt t x then x else t)"

section \<open>The volatility estimator\<close>

text \<open>
  The series \<^verbatim>\<open>tr\<close> of \<^verbatim>\<open>atr\<close>: the row-wise maximum of the three columns. What the
  scanner needs of the estimator is that it returns a series as long as the table; the
  searches are characterised below for every such series.
\<close>

definition true_range :: "bar list \<Rightarrow> real option list" where
  "true_range df =
     (let high = map (\<lambda>b. Some (High b)) df;
          low = map (\<lambda>b. Some (Low b)) df;
          close = map Close df;
          prev_close = shift1 close
      in map (\<lambda>(h, l, p). row_max [abs_diff h l, abs_diff h p, abs_diff l p])
           (zip high (zip low prev_close)))"

definition atr :: "bar list \<Rightarrow> int \<Rightarrow> error + real option list" where
  "atr df n = rolling_mean n (true_range df)"

section \<open>The pattern scanner\<close>

text \<open>
  Both inner loops have the shape
  \<^verbatim>\<open>idx = None; for j in range(lo, hi): if <test at j>: idx = j; break\<close>.
  The range is the list of its positions; a read that raises inside the test ends the loop
  with the exception.
\<close>

fun first_hit :: "(nat \<Rightarrow> error + bool) \<Rightarrow> nat list \<Rightarrow> error + nat option" where
  "first_hit test [] = Inr None"
| "first_hit test (j # js) =
     (case test j of
        Inl e \<Rightarrow> Inl e
      | Inr hit \<Rightarrow> if hit then Inr (Some j) else first_hit test js)"

text \<open>
  The test of the retest loop. Python's \<^verbatim>\<open>and\<close> reads the high only when the low is in the
  band, and the close only when both are.
\<close>

definition retest_test :: "bar list \<Rightarrow> real \<Rightarrow> fp \<Rightarrow> fp \<Rightarrow> nat \<Rightarrow> error + bool" where
  "retest_test df level tol_up tol_dn j =
     (case iloc (map Low df) j of
        Inl e \<Rightarrow> Inl e
      | Inr lo \<Rightarrow>
          if fle (Fin lo) tol_up then
            (case iloc (map High df) j of
               Inl e \<Rightarrow> Inl e
             | Inr hi \<Rightarrow>
                 if fle tol_dn (Fin hi) then
                   (case iloc (map Close df) j of
                      Inl e \<Rightarrow> Inl e
                    | Inr c \<Rightarrow> Inr (c \<ge> level))
                 else Inr False)
          else Inr False)"

definition find_retest :: "bar list \<Rightarrow> real \<Rightarrow> real \<Rightarrow> int \<Rightarrow> nat \<Rightarrow> error + nat option" where
  "find_retest df level tolerance_pct max_retest_window breakout_idx =
     (let tol_up = fmul (Fin level) (fadd (Fin 1) (Fin tolerance_pct));
          tol_dn = fmul (Fin level) (fsub (Fin 1) (Fin tolerance_pct));
          end_rt = min (int (length df) - 1) (int breakout_idx + max_retest_window)
      in first_hit (retest_test df level tol_up tol_dn)
           [breakout_idx + 1 ..< nat (end_rt + 1)])"

text \<open>The threshold of the takeoff loop at position \<open>k\<close>, and its test.\<close>

definition takeoff_threshold ::
  "real option list \<Rightarrow> real \<Rightarrow> real \<Rightarrow> bool \<Rightarrow> real \<Rightarrow> nat \<Rightarrow> error + fp" where
  "takeoff_threshold a level takeoff_pct use_atr atr_mult k =
     (let threshold = fmul (Fin level) (fadd (Fin 1) (Fin takeoff_pct))
      in if use_atr then
           (case iloc a k of
              Inl e \<Rightarrow> Inl e
            | Inr v \<Rightarrow>
                Inr (py_max threshold (fadd (Fin level) (fmul (Fin atr_mult) (of_opt v)))))
         else Inr threshold)"

definition takeoff_test ::
  "bar list \<Rightarrow> real option list \<Rightarrow> real \<Rightarrow> real \<Rightarrow> bool \<Rightarrow> real \<Rightarrow> nat \<Rightarrow> error + bool" where
  "takeoff_test df a level takeoff_pct use_atr atr_mult k =
     (case takeoff_threshold a level takeoff_pct use_atr atr_mult k of
        Inl e \<Rightarrow> Inl e
      | Inr threshold \<Rightarrow>
          (case iloc (map Close df) k of
             Inl e \<Rightarrow> Inl e
           | Inr c \<Rightarrow> Inr (fle threshold (Fin c))))"

definition find_takeoff ::
  "bar list \<Rightarrow> real option list \<Rightarrow> real \<Rightarrow> int \<Rightarrow> real \<Rightarrow> bool \<Rightarrow> real \<Rightarrow> nat
     \<Rightarrow> error + nat option" where
  "find_takeoff df a level takeoff_window takeoff_pct use_atr atr_mult retest_idx =
     (let end_to = min (int (length df) - 1) (int retest_idx + takeoff_window)
      in first_hit (takeoff_test df a level takeoff_pct use_atr atr_mult)
           [retest_idx + 1 ..< nat (end_to + 1)])"

text \<open>The dictionary built once both positions are found.\<close>

definition make_event ::
  "bar list \<Rightarrow> real option list \<Rightarrow> real \<Rightarrow> nat \<Rightarrow> nat \<Rightarrow> nat \<Rightarrow> error + event" where
  "make_event df a level breakout_idx retest_idx takeoff_idx =
     (case iloc (map Close df) takeoff_idx of
        Inl e \<Rightarrow> Inl e
      | Inr c \<Rightarrow>
          let ret = fsub (fdiv (Fin c) (Fin level)) (Fin 1)
          in (case iloc (map Time df) breakout_idx of
                Inl e \<Rightarrow> Inl e
              | Inr bt \<Rightarrow>
                  (case iloc (map Time df) retest_idx of
                     Inl e \<Rightarrow> Inl e
                   | Inr rt \<Rightarrow>
                       (case iloc (map Time df) takeoff_idx of
                          Inl e \<Rightarrow> Inl e
                        | Inr tt \<Rightarrow>
                            (case iloc a takeoff_idx of
                               Inl e \<Rightarrow> Inl e
                             | Inr v \<Rightarrow>
                                 Inr \<lparr> breakout_time = bt,
                                       retest_time = rt,
                                       takeoff_time = tt,
                                       event_level = level,
                                       close_at_takeoff = c,
                                       return_from_level_pct =
                                         finite_of (fmul ret (Fin 100)),
                                       bars_to_retest = int retest_idx - int breakout_idx,
                                       bars_to_takeoff = int takeoff_idx - int retest_idx,
                                       atr_at_takeoff = v \<rparr>)))))"

text \<open>
  The body of the outer loop at position \<open>i\<close>: the crossing test (the chained comparison
  reads the second close only when the first is below the level), the two searches with
  their \<^verbatim>\<open>continue\<close>, and the append.
\<close>

definition scan_bar ::
  "bar list \<Rightarrow> real option list \<Rightarrow> real \<Rightarrow> real \<Rightarrow> int \<Rightarrow> int \<Rightarrow> real \<Rightarrow> bool \<Rightarrow> real
     \<Rightarrow> nat \<Rightarrow> event list \<Rightarrow> error + event list" where
  "scan_bar df a level tolerance_pct max_retest_window takeoff_window takeoff_pct use_atr atr_mult
       i results =
     (case iloc (map Close df) (i - 1) of
        Inl e \<Rightarrow> Inl e
      | Inr c0 \<Rightarrow>
          if c0 < level then
            (case iloc (map Close df) i of
               Inl e \<Rightarrow> Inl e
             | Inr c1 \<Rightarrow>
                 if level \<le> c1 then
                   (case find_retest df level tolerance_pct max_retest_window i of
                      Inl e \<Rightarrow> Inl e
                    | Inr None \<Rightarrow> Inr results
                    | Inr (Some retest_idx) \<Rightarrow>
                        (case find_takeoff df a level takeoff_window takeoff_pct use_atr
                                atr_mult retest_idx of
                           Inl e \<Rightarrow> Inl e
                         | Inr None \<Rightarrow> Inr results
                         | Inr (Some takeoff_idx) \<Rightarrow>
                             (case make_event df a level i retest_idx takeoff_idx of
                                Inl e \<Rightarrow> Inl e
                              | Inr ev \<Rightarrow> Inr (results @ [ev]))))
                 else Inr results)
          else Inr results)"

fun scan_loop ::
  "(nat \<Rightarrow> event list \<Rightarrow> error + event list) \<Rightarrow> nat list \<Rightarrow> event list
     \<Rightarrow> error + event list" where
  "scan_loop body [] results = Inr results"
| "scan_loop body (i # is) results =
     (case body i results of
        Inl e \<Rightarrow> Inl e
      | Inr results' \<Rightarrow> scan_loop body is results')"

text \<open>
  \<^verbatim>\<open>find_breakout_retests\<close>: the volatility series is computed first, with the window 14
  written in the call, then the loop runs over \<^verbatim>\<open>range(1, len(df))\<close>. The list of
  dictionaries is the returned table, row by row.
\<close>

definition find_breakout_retests ::
  "bar list \<Rightarrow> real \<Rightarrow> real \<Rightarrow> int \<Rightarrow> int \<Rightarrow> real \<Rightarrow> bool \<Rightarrow> real \<Rightarrow> error + event list" where
  "find_breakout_retests df level tolerance_pct max_retest_window takeoff_window takeoff_pct
       use_atr atr_mult =
     (case atr df 14 of
        Inl e \<Rightarrow> Inl e
      | Inr a \<Rightarrow>
          scan_loop
            (scan_bar df a level tolerance_pct max_retest_window takeoff_window takeoff_pct
               use_atr atr_mult)
            [1 ..< length df] [])"

section \<open>The words of the specification\<close>

text \<open>
  The true range as the specification writes it: at position 0 only the bar's own range,
  afterwards the largest of the three distances.
\<close>

definition tr_spec :: "bar list \<Rightarrow> nat \<Rightarrow> real" where
  "tr_spec df k =
     (if k = 0 then \<bar>High (df ! 0) - Low (df ! 0)\<bar>
      else max \<bar>High (df ! k) - Low (df ! k)\<bar>
             (max \<bar>High (df ! k) - Close (df ! (k - 1))\<bar>
                  \<bar>Low (df ! k) - Close (df ! (k - 1))\<bar>))"

text \<open>
  The volatility value at \<open>k\<close> for the window \<open>W\<close>: the arithmetic mean of the true range
  over the positions \<open>max 0 (k - W + 1)\<close> to \<open>k\<close>.
\<close>

definition vol_spec :: "bar list \<Rightarrow> int \<Rightarrow> nat \<Rightarrow> real" where
  "vol_spec df W k =
     (let lo = nat (max 0 (int k - W + 1))
      in sum_list (map (tr_spec df) [lo ..< Suc k]) / real (Suc k - lo))"

text \<open>A breakout at \<open>i\<close>: the close crosses the level from below to at or above.\<close>

definition breakout :: "bar list \<Rightarrow> real \<Rightarrow> nat \<Rightarrow> bool" where
  "breakout df level i \<longleftrightarrow>
     1 \<le> i \<and> i < length df \<and> Close (df ! (i - 1)) < level \<and> level \<le> Close (df ! i)"

text \<open>
  The search window after position \<open>start\<close> in a series of \<open>N\<close> bars:
  \<open>start + 1 \<le> j \<le> min last_index (start + w)\<close>.
\<close>

definition in_window :: "nat \<Rightarrow> nat \<Rightarrow> int \<Rightarrow> nat \<Rightarrow> bool" where
  "in_window N start w j \<longleftrightarrow> start + 1 \<le> j \<and> int j \<le> min (int N - 1) (int start + w)"

text \<open>
  The retest condition at \<open>j\<close>: the bar touches the tolerance band and closes at or above
  the level. The bounds of the band are the floats \<open>level * (1 + tolerance)\<close> and
  \<open>level * (1 - tolerance)\<close>.
\<close>

definition retest_spec :: "bar list \<Rightarrow> real \<Rightarrow> real \<Rightarrow> nat \<Rightarrow> bool" where
  "retest_spec df level tolerance j \<longleftrightarrow>
     fle (Fin (Low (df ! j))) (fmul (Fin level) (fadd (Fin 1) (Fin tolerance)))
     \<and> fle (fmul (Fin level) (fsub (Fin 1) (Fin tolerance))) (Fin (High (df ! j)))
     \<and> Close (df ! j) \<ge> level"

text \<open>
  The takeoff threshold at \<open>k\<close>, over a volatility series \<open>vol\<close>: the float
  \<open>level * (1 + takeoff_pct)\<close>, and with the gate the larger of it and the float
  \<open>level + atr_multiplier * vol k\<close>, as \<^verbatim>\<open>max\<close> takes it.
\<close>

definition threshold_spec :: "(nat \<Rightarrow> fp) \<Rightarrow> real \<Rightarrow> real \<Rightarrow> bool \<Rightarrow> real \<Rightarrow> nat \<Rightarrow> fp" where
  "threshold_spec vol level takeoff_pct gate atr_multiplier k =
     (if gate then
        py_max (fmul (Fin level) (fadd (Fin 1) (Fin takeoff_pct)))
          (fadd (Fin level) (fmul (Fin atr_multiplier) (vol k)))
      else fmul (Fin level) (fadd (Fin 1) (Fin takeoff_pct)))"

text \<open>The takeoff condition at \<open>k\<close>: the close reaches the threshold.\<close>

definition takeoff_spec ::
  "bar list \<Rightarrow> (nat \<Rightarrow> fp) \<Rightarrow> real \<Rightarrow> real \<Rightarrow> bool \<Rightarrow> real \<Rightarrow> nat \<Rightarrow> bool" where
  "takeoff_spec df vol level takeoff_pct gate atr_multiplier k \<longleftrightarrow>
     fle (threshold_spec vol level takeoff_pct gate atr_multiplier k) (Fin (Close (df ! k)))"

text \<open>
  The return of an event: the float \<open>(close_at_takeoff / level - 1) * 100\<close>, or no number.
\<close>

definition return_spec :: "real \<Rightarrow> real \<Rightarrow> real option" where
  "return_spec c level =
     finite_of (fmul (fsub (fdiv (Fin c) (Fin level)) (Fin 1)) (Fin 100))"

text \<open>
  The path of one candidate through the body of the outer loop: a breakout at \<open>b\<close>, the
  retest search giving \<open>r\<close>, the takeoff search giving \<open>t\<close>, and \<open>e\<close> the dictionary built
  from the three positions.
\<close>

definition candidate_event ::
  "bar list \<Rightarrow> real \<Rightarrow> real \<Rightarrow> int \<Rightarrow> int \<Rightarrow> real \<Rightarrow> bool \<Rightarrow> real
     \<Rightarrow> nat \<Rightarrow> nat \<Rightarrow> nat \<Rightarrow> event \<Rightarrow> bool" where
  "candidate_event df level tolerance_pct max_retest_window takeoff_window takeoff_pct use_atr
       atr_mult b r t e \<longleftrightarrow>
     breakout df level b \<and>
     find_retest df level tolerance_pct max_retest_window b = Inr (Some r) \<and>
     (case atr df 14 of
        Inl _ \<Rightarrow> False
      | Inr a \<Rightarrow>
          find_takeoff df a level takeoff_window takeoff_pct use_atr atr_mult r = Inr (Some t)
            \<and> make_event df a level b r t = Inr e)"

text \<open>
  Scenario A of the specification: the decimals it gives are the floats their literals
  denote, and the fields it leaves open are filled in. Its one event.
\<close>

definition bars_A :: "bar list" where
  "bars_A =
     [\<lparr>Time = 10, Open = 99, High = 99.5, Low = 98.5, Close = 99, Volume = 1\<rparr>,
      \<lparr>Time = 20, Open = 99, High = 101.5, Low = 99, Close = 101, Volume = 1\<rparr>,
      \<lparr>Time = 30, Open = 101, High = dbl 100.05, Low = dbl 99.9, Close = dbl 100.2,
        Volume = 1\<rparr>,
      \<lparr>Time = 40, Open = dbl 100.2, High = 100.75, Low = 100.25, Close = dbl 100.6,
        Volume = 1\<rparr>]"

definition event_A :: event where
  "event_A =
     \<lparr> breakout_time = 20, retest_time = 30, takeoff_time = 40, event_level = 100,
       close_at_takeoff = dbl 100.6,
       return_from_level_pct = Some (675539944105575 / 2 ^ 50),
       bars_to_retest = 1, bars_to_takeoff = 1,
       atr_at_takeoff = Some (vol_spec bars_A 14 3) \<rparr>"

text \<open>
  The same pattern on prices that are floats as written (multiples of 1/16), and a
  variant where the bar at position 2 touches the band and closes below the level while
  the last bar touches it and closes above (scenario B); a flat series below the level
  100 (scenario C).
\<close>

definition bars_D :: "bar list" where
  "bars_D =
     [\<lparr>Time = 10, Open = 99, High = 99.5, Low = 98.5, Close = 99, Volume = 1\<rparr>,
      \<lparr>Time = 20, Open = 99, High = 101.5, Low = 99, Close = 101, Volume = 1\<rparr>,
      \<lparr>Time = 30, Open = 101, High = 100.0625, Low = 99.875, Close = 100.25, Volume = 1\<rparr>,
      \<lparr>Time = 40, Open = 100.25, High = 100.75, Low = 100.125, Close = 100.75, Volume = 1\<rparr>]"

definition bars_B :: "bar list" where
  "bars_B =
     [\<lparr>Time = 10, Open = 99, High = 99.5, Low = 98.5, Close = 99, Volume = 1\<rparr>,
      \<lparr>Time = 20, Open = 99, High = 101.5, Low = 99, Close = 101, Volume = 1\<rparr>,
      \<lparr>Time = 30, Open = 101, High = 100.0625, Low = 99.75, Close = 99.75, Volume = 1\<rparr>,
      \<lparr>Time = 40, Open = 100.25, High = 100.75, Low = 100.0625, Close = 100.75, Volume = 1\<rparr>]"

definition bars_flat :: "bar list" where
  "bars_flat =
     [\<lparr>Time = 10, Open = 90, High = 91, Low = 89, Close = 90, Volume = 1\<rparr>,
      \<lparr>Time = 20, Open = 90, High = 91, Low = 89, Close = 90, Volume = 1\<rparr>,
      \<lparr>Time = 30, Open = 90, High = 91, Low = 89, Close = 90, Volume = 1\<rparr>]"

text \<open>
  Two series at the edge of a rounding, for the level 1000. In the first the low of the
  bar at position 2 is 1001, one unit in the last place above the float
  \<open>1000 * (1 + 0.001)\<close>. In the second the last close is the float
  \<open>1000 * (1 + 0.005)\<close> itself, one unit in the last place below 1005.
\<close>

definition bars_low_edge :: "bar list" where
  "bars_low_edge =
     [\<lparr>Time = 10, Open = 999, High = 999, Low = 999, Close = 999, Volume = 1\<rparr>,
      \<lparr>Time = 20, Open = 999, High = 1005, Low = 999, Close = 1005, Volume = 1\<rparr>,
      \<lparr>Time = 30, Open = 1005, High = 1006, Low = 1001, Close = 1005, Volume = 1\<rparr>]"


section \<open>Evaluating the rounding\<close>

lemma bitlen_numeral_simps:
  "bitlen (numeral (Num.Bit0 n)) = bitlen (numeral n) + 1"
  "bitlen (numeral (Num.Bit1 n)) = bitlen (numeral n) + 1"
  "bitlen 1 = 1"
proof -
  have "floorlog 2 (numeral (Num.Bit0 n)) = floorlog 2 (numeral n) + 1"
    by (subst compute_floorlog) simp
  then show "bitlen (numeral (Num.Bit0 n)) = bitlen (numeral n) + 1"
    by (simp add: bitlen_def)
  have "floorlog 2 (numeral (Num.Bit1 n)) = floorlog 2 (numeral n) + 1"
    by (subst compute_floorlog) simp
  then show "bitlen (numeral (Num.Bit1 n)) = bitlen (numeral n) + 1"
    by (simp add: bitlen_def)
  have "floorlog 2 1 = 1"
    by (subst compute_floorlog) (simp add: floorlog_def)
  then show "bitlen 1 = 1"
    by (simp add: bitlen_def)
qed

lemmas fp_eval =
  dbl_def fsub_def rnd_def binade_def bitlen_numeral_simps round_half_even_def pow2_def Let_def




lemma return_spec_level_0: "return_spec c 0 = None"
  by (simp add: return_spec_def fsub_def inf_times_def)

section \<open>Reads in range\<close>

lemma iloc_in: "i < length xs \<Longrightarrow> iloc xs i = Inr (xs ! i)"
  by (simp add: iloc_def)

section \<open>The series of the estimator\<close>

lemma length_shift1: "length (shift1 xs) = length xs"
  by (simp add: shift1_def)

lemma shift1_nth:
  "k < length xs \<Longrightarrow> shift1 xs ! k = (if k = 0 then None else Some (xs ! (k - 1)))"
  by (cases k) (simp_all add: shift1_def)

lemma length_true_range: "length (true_range df) = length df"
  by (simp add: true_range_def length_shift1)

text \<open>The first row holds two NaN, which the row maximum skips; every later row holds none.\<close>

lemma row_max_first: "row_max [Some x, None, None] = Some x"
  by (simp add: row_max_def)

lemma row_max_three: "row_max [Some x, Some y, Some z] = Some (max x (max y z))"
  by (simp add: row_max_def max.assoc max.commute max.left_commute)

lemma true_range_nth:
  assumes "k < length df"
  shows "true_range df ! k = Some (tr_spec df k)"
proof (cases "k = 0")
  case True
  with assms show ?thesis
    by (simp add: true_range_def Let_def length_shift1 shift1_nth abs_diff_def
        row_max_first tr_spec_def)
next
  case False
  with assms show ?thesis
    by (simp add: true_range_def Let_def length_shift1 shift1_nth abs_diff_def
        row_max_three tr_spec_def)
qed

lemma true_range_eq: "true_range df = map (\<lambda>k. Some (tr_spec df k)) [0..<length df]"
  by (rule nth_equalityI) (simp_all add: length_true_range true_range_nth)

lemma map_filter_Some: "List.map_filter id (map (\<lambda>k. Some (f k)) ks) = map f ks"
  by (induction ks) simp_all

lemma window_upt:
  assumes "k < N"
  shows "window n (map f [0..<N]) k = map f [nat (int k - n + 1) ..< Suc k]"
proof -
  have "take (Suc k) (map f [0..<N]) = map f [0..<Suc k]"
    using assms by (simp add: take_map min_def del: upt_Suc)
  then show ?thesis
    by (simp add: window_def drop_map del: upt_Suc)
qed

lemma window_mean_Some:
  assumes "ks \<noteq> []"
  shows "window_mean (map (\<lambda>k. Some (f k)) ks) = Some (sum_list (map f ks) / real (length ks))"
proof -
  from assms have "1 \<le> length ks" by (cases ks) simp_all
  then show ?thesis by (simp add: window_mean_def map_filter_Some)
qed

lemma nat_max0: "nat (max 0 x) = nat x"
  by (simp add: max_def)

lemma vol_spec_alt:
  "vol_spec df W k =
     sum_list (map (tr_spec df) [nat (int k - W + 1) ..< Suc k])
       / real (Suc k - nat (int k - W + 1))"
  unfolding vol_spec_def Let_def nat_max0 ..

lemma atr_ok:
  assumes "1 \<le> n"
  shows "atr df n = Inr (map (\<lambda>k. Some (vol_spec df n k)) [0..<length df])"
proof -
  have "window_mean (window n (true_range df) k) = Some (vol_spec df n k)"
    if "k < length df" for k
  proof -
    let ?lo = "nat (int k - n + 1)"
    have lo: "?lo \<le> k" using assms by simp
    then have ne: "[?lo ..< Suc k] \<noteq> []" by simp
    have "window n (true_range df) k = map (\<lambda>i. Some (tr_spec df i)) [?lo ..< Suc k]"
      using that by (simp only: true_range_eq window_upt)
    then show ?thesis
      using ne lo by (simp add: window_mean_Some vol_spec_alt del: upt_Suc)
  qed
  then show ?thesis
    using assms by (simp add: atr_def rolling_mean_def length_true_range)
qed

section \<open>The two searches find the first position that passes\<close>

lemma first_hit_find:
  assumes "\<And>j. j \<in> set js \<Longrightarrow> test j = Inr (P j)"
  shows "first_hit test js = Inr (List.find P js)"
  using assms by (induction js) simp_all

lemma find_upt_Some:
  "List.find P [lo..<hi] = Some j \<longleftrightarrow>
     lo \<le> j \<and> j < hi \<and> P j \<and> (\<forall>j'. lo \<le> j' \<and> j' < j \<longrightarrow> \<not> P j')"
proof
  assume "List.find P [lo..<hi] = Some j"
  then obtain i where i: "i < hi - lo" "P (lo + i)" "j = lo + i" "\<forall>m<i. \<not> P (lo + m)"
    by (auto simp: find_Some_iff)
  have "\<not> P j'" if "lo \<le> j'" "j' < j" for j'
  proof -
    from that i(3) have "j' - lo < i" by simp
    with i(4) have "\<not> P (lo + (j' - lo))" by blast
    with that show ?thesis by simp
  qed
  with i show "lo \<le> j \<and> j < hi \<and> P j \<and> (\<forall>j'. lo \<le> j' \<and> j' < j \<longrightarrow> \<not> P j')"
    by simp
next
  assume r: "lo \<le> j \<and> j < hi \<and> P j \<and> (\<forall>j'. lo \<le> j' \<and> j' < j \<longrightarrow> \<not> P j')"
  then have "j - lo < length [lo..<hi]" "P ([lo..<hi] ! (j - lo))" "j = [lo..<hi] ! (j - lo)"
    "\<forall>m<j - lo. \<not> P ([lo..<hi] ! m)"
    by auto
  then show "List.find P [lo..<hi] = Some j"
    unfolding find_Some_iff by blast
qed

lemma find_upt_None:
  "List.find P [lo..<hi] = None \<longleftrightarrow> (\<forall>j. lo \<le> j \<and> j < hi \<longrightarrow> \<not> P j)"
  by (auto simp: find_None_iff)

lemma in_window_upt:
  "j \<in> set [s + 1 ..< nat (min (int N - 1) (int s + w) + 1)] \<longleftrightarrow> in_window N s w j"
  by (auto simp: in_window_def)

lemma in_window_alt:
  "in_window N s w j \<longleftrightarrow> s + 1 \<le> j \<and> j < nat (min (int N - 1) (int s + w) + 1)"
  by (auto simp: in_window_def)

lemma in_window_less: "in_window N s w j \<Longrightarrow> j < N"
  by (auto simp: in_window_def)

lemma retest_test_in:
  assumes "j < length df"
  shows "retest_test df level (fmul (Fin level) (fadd (Fin 1) (Fin tol)))
           (fmul (Fin level) (fsub (Fin 1) (Fin tol))) j
           = Inr (retest_spec df level tol j)"
  using assms by (simp add: retest_test_def iloc_in retest_spec_def)

lemma find_retest_find:
  "find_retest df level tol w b =
     Inr (List.find (retest_spec df level tol)
            [b + 1 ..< nat (min (int (length df) - 1) (int b + w) + 1)])"
proof -
  have "retest_test df level (fmul (Fin level) (fadd (Fin 1) (Fin tol)))
          (fmul (Fin level) (fsub (Fin 1) (Fin tol))) j = Inr (retest_spec df level tol j)"
    if "j \<in> set [b + 1 ..< nat (min (int (length df) - 1) (int b + w) + 1)]" for j
  proof -
    from that have "in_window (length df) b w j" by (simp only: in_window_upt)
    then have "j < length df" by (rule in_window_less)
    then show ?thesis by (rule retest_test_in)
  qed
  then show ?thesis
    unfolding find_retest_def Let_def by (rule first_hit_find)
qed

text \<open>The takeoff test reads the series only at the position tested.\<close>

lemma takeoff_test_in:
  assumes "k < length df" and "k < length a"
  shows "takeoff_test df a level tp g am k
           = Inr (takeoff_spec df (\<lambda>i. of_opt (a ! i)) level tp g am k)"
  using assms
  by (simp add: takeoff_test_def takeoff_threshold_def Let_def iloc_in
      takeoff_spec_def threshold_spec_def)

lemma find_takeoff_find:
  assumes "length a = length df"
  shows "find_takeoff df a level w tp g am r =
     Inr (List.find (takeoff_spec df (\<lambda>i. of_opt (a ! i)) level tp g am)
            [r + 1 ..< nat (min (int (length df) - 1) (int r + w) + 1)])"
proof -
  have "takeoff_test df a level tp g am k
          = Inr (takeoff_spec df (\<lambda>i. of_opt (a ! i)) level tp g am k)"
    if "k \<in> set [r + 1 ..< nat (min (int (length df) - 1) (int r + w) + 1)]" for k
  proof -
    from that have "in_window (length df) r w k" by (simp only: in_window_upt)
    then have "k < length df" by (rule in_window_less)
    with assms show ?thesis by (simp add: takeoff_test_in)
  qed
  then show ?thesis
    unfolding find_takeoff_def Let_def by (rule first_hit_find)
qed

lemma find_retest_Some:
  "find_retest df level tol w b = Inr (Some r) \<longleftrightarrow>
     in_window (length df) b w r \<and> retest_spec df level tol r
       \<and> (\<forall>j. in_window (length df) b w j \<and> j < r \<longrightarrow> \<not> retest_spec df level tol j)"
  unfolding find_retest_find in_window_alt by (auto simp: find_upt_Some)

lemma find_retest_None:
  "find_retest df level tol w b = Inr None \<longleftrightarrow>
     (\<forall>j. in_window (length df) b w j \<longrightarrow> \<not> retest_spec df level tol j)"
  unfolding find_retest_find in_window_alt by (auto simp: find_upt_None)

lemma find_retest_total: "\<exists>res. find_retest df level tol w b = Inr res"
  by (simp add: find_retest_find)

lemma find_takeoff_Some:
  assumes "length a = length df"
  shows "find_takeoff df a level w tp g am r = Inr (Some t) \<longleftrightarrow>
     in_window (length df) r w t \<and> takeoff_spec df (\<lambda>i. of_opt (a ! i)) level tp g am t
       \<and> (\<forall>k. in_window (length df) r w k \<and> k < t
                \<longrightarrow> \<not> takeoff_spec df (\<lambda>i. of_opt (a ! i)) level tp g am k)"
  unfolding find_takeoff_find [OF assms] in_window_alt by (auto simp: find_upt_Some)

lemma find_takeoff_None:
  assumes "length a = length df"
  shows "find_takeoff df a level w tp g am r = Inr None \<longleftrightarrow>
     (\<forall>k. in_window (length df) r w k
           \<longrightarrow> \<not> takeoff_spec df (\<lambda>i. of_opt (a ! i)) level tp g am k)"
  unfolding find_takeoff_find [OF assms] in_window_alt by (auto simp: find_upt_None)

lemma find_takeoff_total:
  assumes "length a = length df"
  shows "\<exists>res. find_takeoff df a level w tp g am r = Inr res"
  by (simp add: find_takeoff_find [OF assms])

text \<open>On the series of the estimator the threshold is over its real values.\<close>

lemma takeoff_spec_series:
  assumes "k < length df"
  shows "takeoff_spec df (\<lambda>i. of_opt (map (\<lambda>k. Some (v k)) [0..<length df] ! i)) level tp g am k
           = takeoff_spec df (\<lambda>i. Fin (v i)) level tp g am k"
  using assms by (simp add: takeoff_spec_def threshold_spec_def of_opt_def)

lemma find_takeoff_series_Some:
  "find_takeoff df (map (\<lambda>k. Some (v k)) [0..<length df]) level w tp g am r = Inr (Some t) \<longleftrightarrow>
     in_window (length df) r w t \<and> takeoff_spec df (\<lambda>i. Fin (v i)) level tp g am t
       \<and> (\<forall>k. in_window (length df) r w k \<and> k < t
                \<longrightarrow> \<not> takeoff_spec df (\<lambda>i. Fin (v i)) level tp g am k)"
  by (subst find_takeoff_Some) (auto simp: takeoff_spec_series in_window_less)

lemma find_takeoff_series_None:
  "find_takeoff df (map (\<lambda>k. Some (v k)) [0..<length df]) level w tp g am r = Inr None \<longleftrightarrow>
     (\<forall>k. in_window (length df) r w k \<longrightarrow> \<not> takeoff_spec df (\<lambda>i. Fin (v i)) level tp g am k)"
  by (subst find_takeoff_None) (auto simp: takeoff_spec_series in_window_less)

lemma make_event_in:
  assumes "b < length df" "r < length df" "t < length df"
  shows "make_event df (map (\<lambda>k. Some (v k)) [0..<length df]) level b r t =
           Inr \<lparr> breakout_time = Time (df ! b),
                 retest_time = Time (df ! r),
                 takeoff_time = Time (df ! t),
                 event_level = level,
                 close_at_takeoff = Close (df ! t),
                 return_from_level_pct = return_spec (Close (df ! t)) level,
                 bars_to_retest = int r - int b,
                 bars_to_takeoff = int t - int r,
                 atr_at_takeoff = Some (v t) \<rparr>"
  using assms by (simp add: make_event_def iloc_in return_spec_def Let_def)

lemma candidate_event_alt:
  "candidate_event df level tol mrw tw tp g am b r t e \<longleftrightarrow>
     breakout df level b
     \<and> find_retest df level tol mrw b = Inr (Some r)
     \<and> find_takeoff df (map (\<lambda>k. Some (vol_spec df 14 k)) [0..<length df]) level tw tp g am r
           = Inr (Some t)
     \<and> make_event df (map (\<lambda>k. Some (vol_spec df 14 k)) [0..<length df]) level b r t = Inr e"
  by (simp add: candidate_event_def atr_ok)

lemma scan_bar_appends:
  assumes i: "1 \<le> i" "i < length df"
    and a: "a = map (\<lambda>k. Some (vol_spec df 14 k)) [0..<length df]"
  shows "\<exists>new. scan_bar df a level tol mrw tw tp g am i results = Inr (results @ new)
           \<and> (\<forall>e. e \<in> set new \<longleftrightarrow> (\<exists>r t. candidate_event df level tol mrw tw tp g am i r t e))"
proof (cases "breakout df level i")
  case False
  with i have "scan_bar df a level tol mrw tw tp g am i results = Inr (results @ [])"
    by (auto simp: scan_bar_def iloc_in breakout_def)
  moreover from False have "\<not> candidate_event df level tol mrw tw tp g am i r t e" for r t e
    by (simp add: candidate_event_def)
  ultimately show ?thesis by auto
next
  case bo: True
  with i have body: "scan_bar df a level tol mrw tw tp g am i results =
     (case find_retest df level tol mrw i of
        Inl e \<Rightarrow> Inl e
      | Inr None \<Rightarrow> Inr results
      | Inr (Some retest_idx) \<Rightarrow>
          (case find_takeoff df a level tw tp g am retest_idx of
             Inl e \<Rightarrow> Inl e
           | Inr None \<Rightarrow> Inr results
           | Inr (Some takeoff_idx) \<Rightarrow>
               (case make_event df a level i retest_idx takeoff_idx of
                  Inl e \<Rightarrow> Inl e
                | Inr ev \<Rightarrow> Inr (results @ [ev]))))"
    by (simp add: scan_bar_def iloc_in breakout_def)
  from find_retest_total obtain res where res: "find_retest df level tol mrw i = Inr res"
    by blast
  show ?thesis
  proof (cases res)
    case None
    with res body have "scan_bar df a level tol mrw tw tp g am i results = Inr (results @ [])"
      by simp
    moreover from None res have "\<not> candidate_event df level tol mrw tw tp g am i r t e" for r t e
      by (simp add: candidate_event_def)
    ultimately show ?thesis by auto
  next
    case (Some r)
    with res have "in_window (length df) i mrw r" by (simp add: find_retest_Some)
    then have r: "r < length df" by (rule in_window_less)
    obtain res' where res': "find_takeoff df a level tw tp g am r = Inr res'"
    proof -
      have "length a = length df" unfolding a by simp
      from find_takeoff_total [OF this, of level tw tp g am r] that show ?thesis by blast
    qed
    show ?thesis
    proof (cases res')
      case None
      with res res' Some body
      have "scan_bar df a level tol mrw tw tp g am i results = Inr (results @ [])"
        by simp
      moreover from None res res' Some
      have "\<not> candidate_event df level tol mrw tw tp g am i r' t e" for r' t e
        unfolding candidate_event_alt a [symmetric] by auto
      ultimately show ?thesis by auto
    next
      case t: (Some t)
      with res' have "in_window (length df) r tw t"
        unfolding a by (simp add: find_takeoff_series_Some)
      then have t': "t < length df" by (rule in_window_less)
      from make_event_in [OF i(2) r t'] obtain ev
        where ev: "make_event df a level i r t = Inr ev"
        unfolding a by blast
      with res res' Some t body
      have "scan_bar df a level tol mrw tw tp g am i results = Inr (results @ [ev])"
        by simp
      moreover from res res' Some t ev bo
      have "candidate_event df level tol mrw tw tp g am i r' t'' e
              \<longleftrightarrow> r' = r \<and> t'' = t \<and> e = ev" for r' t'' e
        unfolding candidate_event_alt a [symmetric] by auto
      ultimately show ?thesis by auto
    qed
  qed
qed

lemma scan_loop_appends:
  assumes "\<forall>i\<in>set is. 1 \<le> i \<and> i < length df"
    and a: "a = map (\<lambda>k. Some (vol_spec df 14 k)) [0..<length df]"
  shows "\<exists>new. scan_loop (scan_bar df a level tol mrw tw tp g am) is results
                  = Inr (results @ new)
           \<and> (\<forall>e. e \<in> set new \<longleftrightarrow>
                   (\<exists>b\<in>set is. \<exists>r t. candidate_event df level tol mrw tw tp g am b r t e))"
  using assms(1)
proof (induction "is" arbitrary: results)
  case Nil
  then show ?case by simp
next
  case (Cons i "is")
  then have i: "1 \<le> i" "i < length df" by simp_all
  from scan_bar_appends [OF i a] obtain new1
    where new1: "scan_bar df a level tol mrw tw tp g am i results = Inr (results @ new1)"
      "\<forall>e. e \<in> set new1 \<longleftrightarrow> (\<exists>r t. candidate_event df level tol mrw tw tp g am i r t e)"
    by blast
  from Cons.IH [of "results @ new1"] Cons.prems obtain new2
    where new2: "scan_loop (scan_bar df a level tol mrw tw tp g am) is (results @ new1)
                   = Inr ((results @ new1) @ new2)"
      "\<forall>e. e \<in> set new2 \<longleftrightarrow>
             (\<exists>b\<in>set is. \<exists>r t. candidate_event df level tol mrw tw tp g am b r t e)"
    by auto
  from new1(1) new2(1)
  have "scan_loop (scan_bar df a level tol mrw tw tp g am) (i # is) results
          = Inr (results @ (new1 @ new2))"
    by simp
  moreover from new1(2) new2(2)
  have "\<forall>e. e \<in> set (new1 @ new2) \<longleftrightarrow>
          (\<exists>b\<in>set (i # is). \<exists>r t. candidate_event df level tol mrw tw tp g am b r t e)"
    by auto
  ultimately show ?case by blast
qed

lemma emitted_events:
  "\<exists>evs. find_breakout_retests df level tol mrw tw tp g am = Inr evs
     \<and> (\<forall>e. e \<in> set evs \<longleftrightarrow> (\<exists>b r t. candidate_event df level tol mrw tw tp g am b r t e))"
proof -
  let ?a = "map (\<lambda>k. Some (vol_spec df 14 k)) [0..<length df]"
  have "\<forall>i\<in>set [1 ..< length df]. 1 \<le> i \<and> i < length df" by simp
  from scan_loop_appends [OF this refl, of level tol mrw tw tp g am "[]"] obtain new
    where new: "scan_loop (scan_bar df ?a level tol mrw tw tp g am) [1 ..< length df] [] = Inr new"
      "\<forall>e. e \<in> set new \<longleftrightarrow>
         (\<exists>b\<in>set [1 ..< length df]. \<exists>r t. candidate_event df level tol mrw tw tp g am b r t e)"
    by auto
  have "find_breakout_retests df level tol mrw tw tp g am = Inr new"
    using new(1) by (simp add: find_breakout_retests_def atr_ok)
  moreover have "e \<in> set new \<longleftrightarrow> (\<exists>b r t. candidate_event df level tol mrw tw tp g am b r t e)"
    for e
  proof
    assume "e \<in> set new"
    with new(2) show "\<exists>b r t. candidate_event df level tol mrw tw tp g am b r t e" by blast
  next
    assume "\<exists>b r t. candidate_event df level tol mrw tw tp g am b r t e"
    then obtain b r t where c: "candidate_event df level tol mrw tw tp g am b r t e" by blast
    then have "breakout df level b" by (simp add: candidate_event_def)
    then have "b \<in> set [1 ..< length df]" by (simp add: breakout_def)
    with c new(2) show "e \<in> set new" by blast
  qed
  ultimately show ?thesis by blast
qed

lemma candidate_event_indices:
  assumes "candidate_event df level tol mrw tw tp g am b r t e"
  shows "breakout df level b" "in_window (length df) b mrw r" "in_window (length df) r tw t"
    "b < length df" "r < length df" "t < length df"
proof -
  from assms show bo: "breakout df level b" by (simp add: candidate_event_def)
  from assms show r: "in_window (length df) b mrw r"
    by (simp add: candidate_event_alt find_retest_Some)
  from assms show t: "in_window (length df) r tw t"
    by (simp add: candidate_event_alt find_takeoff_series_Some)
  from bo show "b < length df" by (simp add: breakout_def)
  from r show "r < length df" by (rule in_window_less)
  from t show "t < length df" by (rule in_window_less)
qed

lemma candidate_event_record:
  assumes "candidate_event df level tol mrw tw tp g am b r t e"
  shows "e = \<lparr> breakout_time = Time (df ! b),
                 retest_time = Time (df ! r),
                 takeoff_time = Time (df ! t),
                 event_level = level,
                 close_at_takeoff = Close (df ! t),
                 return_from_level_pct = return_spec (Close (df ! t)) level,
                 bars_to_retest = int r - int b,
                 bars_to_takeoff = int t - int r,
                 atr_at_takeoff = Some (vol_spec df 14 t) \<rparr>"
proof -
  note idx = candidate_event_indices [OF assms]
  from assms
  have "make_event df (map (\<lambda>k. Some (vol_spec df 14 k)) [0..<length df]) level b r t = Inr e"
    by (simp add: candidate_event_alt)
  then show ?thesis
    unfolding make_event_in [OF idx(4) idx(5) idx(6)] by simp
qed

section \<open>The floats of the scenarios\<close>

lemma dbl_literals:
  "dbl 0.001 = 1152921504606847 / 2 ^ 60"
  "dbl 0.005 = 5764607523034235 / 2 ^ 60"
  "dbl 100.2 = 7050948166601933 / 2 ^ 46"
  "dbl 100.6 = 3539547832136499 / 2 ^ 45"
  "dbl 99.9 = 3514918771674317 / 2 ^ 45"
  "dbl 100.05 = 7040392854975283 / 2 ^ 46"
  "dbl 0.6 = 5404319552844595 / 2 ^ 53"
  by (simp_all add: fp_eval)

lemma band_100:
  "fmul (Fin 100) (fadd (Fin 1) (Fin (dbl 0.001))) = Fin (3521955646092083 / 2 ^ 45)"
  "fmul (Fin 100) (fsub (Fin 1) (Fin (dbl 0.001))) = Fin (3514918771674317 / 2 ^ 45)"
  by (simp_all add: fp_eval)

lemma threshold_100:
  "fmul (Fin 100) (fadd (Fin 1) (Fin (dbl 0.005))) = Fin (7072058789855231 / 2 ^ 46)"
  by (simp add: fp_eval)

lemma band_1000:
  "fmul (Fin 1000) (fadd (Fin 1) (Fin (dbl 0.001))) = Fin (8804889115230207 / 2 ^ 43)"
  "fmul (Fin 1000) (fsub (Fin 1) (Fin (dbl 0.001))) = Fin 999"
  by (simp_all add: fp_eval)


lemma return_A: "return_spec (dbl 100.6) 100 = Some (675539944105575 / 2 ^ 50)"
  by (simp add: return_spec_def fp_eval)

lemma return_D: "return_spec 100.75 100 = Some (844424930131975 / 2 ^ 50)"
  by (simp add: return_spec_def fp_eval)

lemma gate_D:
  "fadd (Fin 100) (fmul (Fin 0.5) (Fin (21 / 16))) = Fin 100.65625"
  "fadd (Fin 100) (fmul (Fin 1) (Fin (21 / 16))) = Fin 101.3125"
  by (simp_all add: fp_eval)


section \<open>The scenarios, row by row\<close>

lemma bars_A_nth:
  "bars_A ! 0 = \<lparr>Time = 10, Open = 99, High = 99.5, Low = 98.5, Close = 99, Volume = 1\<rparr>"
  "bars_A ! 1 = \<lparr>Time = 20, Open = 99, High = 101.5, Low = 99, Close = 101, Volume = 1\<rparr>"
  "bars_A ! 2 = \<lparr>Time = 30, Open = 101, High = dbl 100.05, Low = dbl 99.9,
                  Close = dbl 100.2, Volume = 1\<rparr>"
  "bars_A ! 3 = \<lparr>Time = 40, Open = dbl 100.2, High = 100.75, Low = 100.25,
                  Close = dbl 100.6, Volume = 1\<rparr>"
  "length bars_A = 4"
  unfolding bars_A_def by simp_all

lemma bars_D_nth:
  "bars_D ! 0 = \<lparr>Time = 10, Open = 99, High = 99.5, Low = 98.5, Close = 99, Volume = 1\<rparr>"
  "bars_D ! 1 = \<lparr>Time = 20, Open = 99, High = 101.5, Low = 99, Close = 101, Volume = 1\<rparr>"
  "bars_D ! 2 = \<lparr>Time = 30, Open = 101, High = 100.0625, Low = 99.875, Close = 100.25,
                  Volume = 1\<rparr>"
  "bars_D ! 3 = \<lparr>Time = 40, Open = 100.25, High = 100.75, Low = 100.125, Close = 100.75,
                  Volume = 1\<rparr>"
  "bars_D ! Suc 0 = \<lparr>Time = 20, Open = 99, High = 101.5, Low = 99, Close = 101, Volume = 1\<rparr>"
  "length bars_D = 4"
  by (simp_all add: bars_D_def)

lemma bars_B_nth:
  "bars_B ! 0 = \<lparr>Time = 10, Open = 99, High = 99.5, Low = 98.5, Close = 99, Volume = 1\<rparr>"
  "bars_B ! 1 = \<lparr>Time = 20, Open = 99, High = 101.5, Low = 99, Close = 101, Volume = 1\<rparr>"
  "bars_B ! 2 = \<lparr>Time = 30, Open = 101, High = 100.0625, Low = 99.75, Close = 99.75,
                  Volume = 1\<rparr>"
  "bars_B ! 3 = \<lparr>Time = 40, Open = 100.25, High = 100.75, Low = 100.0625, Close = 100.75,
                  Volume = 1\<rparr>"
  "bars_B ! Suc 0 = \<lparr>Time = 20, Open = 99, High = 101.5, Low = 99, Close = 101, Volume = 1\<rparr>"
  "length bars_B = 4"
  by (simp_all add: bars_B_def)

lemma bars_low_edge_nth:
  "bars_low_edge ! 0 = \<lparr>Time = 10, Open = 999, High = 999, Low = 999, Close = 999, Volume = 1\<rparr>"
  "bars_low_edge ! 1
     = \<lparr>Time = 20, Open = 999, High = 1005, Low = 999, Close = 1005, Volume = 1\<rparr>"
  "bars_low_edge ! 2
     = \<lparr>Time = 30, Open = 1005, High = 1006, Low = 1001, Close = 1005, Volume = 1\<rparr>"
  "bars_low_edge ! Suc 0
     = \<lparr>Time = 20, Open = 999, High = 1005, Low = 999, Close = 1005, Volume = 1\<rparr>"
  "length bars_low_edge = 3"
  by (simp_all add: bars_low_edge_def)


lemma bars_flat_close: "i < length bars_flat \<Longrightarrow> Close (bars_flat ! i) = 90"
proof -
  have "\<forall>b\<in>set bars_flat. Close b = 90" by (simp add: bars_flat_def)
  then show "i < length bars_flat \<Longrightarrow> Close (bars_flat ! i) = 90" by simp
qed

lemma in_window_small:
  "in_window 4 1 1 j \<longleftrightarrow> j = 2"
  "in_window 4 (Suc 0) 1 j \<longleftrightarrow> j = 2"
  "in_window 4 1 20 j \<longleftrightarrow> j = 2 \<or> j = 3"
  "in_window 4 (Suc 0) 20 j \<longleftrightarrow> j = 2 \<or> j = 3"
  "in_window 4 2 20 j \<longleftrightarrow> j = 3"
  "in_window 3 1 20 j \<longleftrightarrow> j = 2"
  "in_window 3 (Suc 0) 20 j \<longleftrightarrow> j = 2"
  by (auto simp: in_window_def)

text \<open>
  A table of four bars with a crossing at position 1 only, a bar at position 2 that
  passes the retest test and a bar at position 3 that passes the takeoff test: the run of
  the scanner, step by step.
\<close>

lemma four_bar_run:
  assumes len: "length df = 4"
    and c0: "Close (df ! 0) < level" and c1: "level \<le> Close (df ! 1)"
    and c2: "level \<le> Close (df ! 2)"
    and rt2: "retest_spec df level tol 2"
    and tk3: "takeoff_spec df (\<lambda>i. Fin (vol_spec df 14 i)) level tp g am 3"
  shows "find_retest df level tol 20 1 = Inr (Some 2)"
    and "find_takeoff df (map (\<lambda>k. Some (vol_spec df 14 k)) [0..<length df]) level 20 tp
           g am 2 = Inr (Some 3)"
    and "make_event df (map (\<lambda>k. Some (vol_spec df 14 k)) [0..<length df]) level 1 2 3 =
           Inr \<lparr> breakout_time = Time (df ! 1),
                   retest_time = Time (df ! 2),
                   takeoff_time = Time (df ! 3),
                   event_level = level,
                   close_at_takeoff = Close (df ! 3),
                   return_from_level_pct = return_spec (Close (df ! 3)) level,
                   bars_to_retest = 1,
                   bars_to_takeoff = 1,
                   atr_at_takeoff = Some (vol_spec df 14 3) \<rparr>"
    and "breakout df level 1"
    and "find_breakout_retests df level tol 20 20 tp g am =
           Inr [\<lparr> breakout_time = Time (df ! 1),
                   retest_time = Time (df ! 2),
                   takeoff_time = Time (df ! 3),
                   event_level = level,
                   close_at_takeoff = Close (df ! 3),
                   return_from_level_pct = return_spec (Close (df ! 3)) level,
                   bars_to_retest = 1,
                   bars_to_takeoff = 1,
                   atr_at_takeoff = Some (vol_spec df 14 3) \<rparr>]"
proof -
  let ?a = "map (\<lambda>k. Some (vol_spec df 14 k)) [0..<length df]"
  let ?body = "scan_bar df ?a level tol 20 20 tp g am"
  let ?e = "\<lparr> breakout_time = Time (df ! 1), retest_time = Time (df ! 2),
              takeoff_time = Time (df ! 3), event_level = level,
              close_at_takeoff = Close (df ! 3),
              return_from_level_pct = return_spec (Close (df ! 3)) level,
              bars_to_retest = 1, bars_to_takeoff = 1,
              atr_at_takeoff = Some (vol_spec df 14 3) \<rparr>"
  show rt: "find_retest df level tol 20 1 = Inr (Some 2)"
    using rt2 by (subst find_retest_Some) (auto simp: len in_window_small)
  show tk: "find_takeoff df ?a level 20 tp g am 2 = Inr (Some 3)"
    using tk3 by (subst find_takeoff_series_Some) (auto simp: len in_window_small)
  show ev: "make_event df ?a level 1 2 3 = Inr ?e"
    by (subst make_event_in) (simp_all add: len)
  show "breakout df level 1"
    using c0 c1 by (simp add: breakout_def len)
  have s1: "?body 1 [] = Inr [?e]"
    using rt tk ev c0 c1 unfolding scan_bar_def by (simp add: iloc_in len)
  have s2: "?body 2 rs = Inr rs" for rs
    using c1 unfolding scan_bar_def by (simp add: iloc_in len)
  have s3: "?body 3 rs = Inr rs" for rs
    using c2 unfolding scan_bar_def by (simp add: iloc_in len)
  have rng: "[1 ..< length df] = [1, 2, 3]"
    unfolding len by (simp add: upt_rec)
  show "find_breakout_retests df level tol 20 20 tp g am = Inr [?e]"
    using s1 s2 s3 unfolding find_breakout_retests_def rng by (simp add: atr_ok)
qed

lemma candidate_in_four_bars:
  assumes "candidate_event df level tol mrw tw tp g am b r t e" and "length df = 4"
  shows "b = 1 \<and> r = 2 \<and> t = 3"
  using candidate_event_indices(1-3) [OF assms(1)] assms(2)
  by (simp add: breakout_def in_window_def)

lemma scenario_A_facts:
  assumes c: "map Close df = [99, 101, dbl 100.2, dbl 100.6]"
    and l: "Low (df ! 2) = dbl 99.9" and h: "High (df ! 2) = dbl 100.05"
  shows "length df = 4" and "Close (df ! 0) < 100" and "100 \<le> Close (df ! 1)"
    and "100 \<le> Close (df ! 2)" and "Close (df ! 3) = dbl 100.6"
    and "retest_spec df 100 (dbl 0.001) 2"
    and "takeoff_spec df vol 100 (dbl 0.005) False am 3"
proof -
  from c have "length (map Close df) = 4" by simp
  then show len: "length df = 4" by simp
  have nth: "Close (df ! i) = map Close df ! i" if "i < 4" for i
    using that len by simp
  from nth [of 0] show c0: "Close (df ! 0) < 100" unfolding c by simp
  from nth [of 1] show c1: "100 \<le> Close (df ! 1)" unfolding c by simp
  from nth [of 2] have c2: "Close (df ! 2) = dbl 100.2" unfolding c by simp
  then show "100 \<le> Close (df ! 2)" unfolding dbl_literals by simp
  from nth [of 3] show c3: "Close (df ! 3) = dbl 100.6" unfolding c by simp
  show "retest_spec df 100 (dbl 0.001) 2"
    unfolding retest_spec_def band_100 l h c2 unfolding dbl_literals by simp
  show "takeoff_spec df vol 100 (dbl 0.005) False am 3"
    unfolding takeoff_spec_def threshold_spec_def if_False threshold_100 c3
    unfolding dbl_literals by simp
qed

lemma bars_A_scenario:
  "map Close bars_A = [99, 101, dbl 100.2, dbl 100.6]" "Low (bars_A ! 2) = dbl 99.9"
  "High (bars_A ! 2) = dbl 100.05"
  unfolding bars_A_def by simp_all

lemma vol_spec_bars_D: "vol_spec bars_D 14 3 = 21 / 16" "vol_spec bars_D 2 3 = 7 / 8"
proof -
  have "[0 ..< 4] = [0, 1, 2, 3::nat]" by (simp add: upt_rec)
  then show "vol_spec bars_D 14 3 = 21 / 16"
    by (simp add: vol_spec_def tr_spec_def bars_D_nth)
  show "vol_spec bars_D 2 3 = 7 / 8"
    by (simp add: vol_spec_def tr_spec_def bars_D_nth)
qed

lemma bars_D_facts:
  "Close (bars_D ! 0) < 100" "100 \<le> Close (bars_D ! 1)" "100 \<le> Close (bars_D ! 2)"
  "retest_spec bars_D 100 (dbl 0.001) 2"
  "takeoff_spec bars_D vol 100 (dbl 0.005) False am 3"
  "takeoff_spec bars_D (\<lambda>i. Fin (vol_spec bars_D 14 i)) 100 (dbl 0.005) True 0.5 3"
  "\<not> takeoff_spec bars_D (\<lambda>i. Fin (vol_spec bars_D 14 i)) 100 (dbl 0.005) True 1 3"
proof -
  show "Close (bars_D ! 0) < 100" "100 \<le> Close (bars_D ! 1)" "100 \<le> Close (bars_D ! 2)"
    by (simp_all add: bars_D_nth)
  show "retest_spec bars_D 100 (dbl 0.001) 2"
    unfolding retest_spec_def band_100 bars_D_nth by simp
  show "takeoff_spec bars_D vol 100 (dbl 0.005) False am 3"
    unfolding takeoff_spec_def threshold_spec_def if_False threshold_100 bars_D_nth by simp
  show "takeoff_spec bars_D (\<lambda>i. Fin (vol_spec bars_D 14 i)) 100 (dbl 0.005) True 0.5 3"
    unfolding takeoff_spec_def threshold_spec_def if_True threshold_100 vol_spec_bars_D
      gate_D bars_D_nth py_max_def
    by simp
  show "\<not> takeoff_spec bars_D (\<lambda>i. Fin (vol_spec bars_D 14 i)) 100 (dbl 0.005) True 1 3"
    unfolding takeoff_spec_def threshold_spec_def if_True threshold_100 vol_spec_bars_D
      gate_D bars_D_nth py_max_def
    by simp
qed

lemma bars_B_facts:
  "\<not> retest_spec bars_B 100 (dbl 0.001) 2" "retest_spec bars_B 100 (dbl 0.001) 3"
  unfolding retest_spec_def band_100 bars_B_nth by simp_all

text \<open>
  At the edges the floats decide: the band ends one unit in the last place below 1001,
  and the threshold one unit in the last place below 1005.
\<close>

lemma bars_low_edge_facts:
  "\<not> retest_spec bars_low_edge 1000 (dbl 0.001) 2"
  "Low (bars_low_edge ! 2) \<le> 1000 * (1 + dbl 0.001)"
  unfolding retest_spec_def band_1000 bars_low_edge_nth unfolding dbl_literals by simp_all


section \<open>The claims\<close>

text \<open>
  C1. Scenario A: four bars with the closes 99, 101, 100.2 and 100.6, the bar at position 2
  with low 99.9 and high 100.05, whatever the other highs, lows, opens, volumes and times
  are; level 100, tolerance 0.1 percent, both windows 20, takeoff 0.5 percent, the
  volatility gate off; every decimal is the float its literal denotes. The scanner returns
  exactly one event: its candidate has the breakout at position 1, the retest at 2 and
  the takeoff at 3, its three times are the times of these bars, and its return from the
  level is the float 675539944105575 / 2^50, printed 0.6000000000000005: the three
  roundings of (close / level - 1) * 100 leave it within 10^-15 of 0.6, and not at 0.6.
\<close>

theorem scenario_A_one_event:
  assumes "map Close df = [99, 101, dbl 100.2, dbl 100.6]"
    and "Low (df ! 2) = dbl 99.9" and "High (df ! 2) = dbl 100.05"
  shows "\<exists>e. find_breakout_retests df 100 (dbl 0.001) 20 20 (dbl 0.005) False atr_mult = Inr [e]
           \<and> candidate_event df 100 (dbl 0.001) 20 20 (dbl 0.005) False atr_mult 1 2 3 e
           \<and> breakout_time e = Time (df ! 1) \<and> retest_time e = Time (df ! 2)
           \<and> takeoff_time e = Time (df ! 3)
           \<and> bars_to_retest e = 1 \<and> bars_to_takeoff e = 1
           \<and> return_from_level_pct e = Some (675539944105575 / 2 ^ 50)
           \<and> \<bar>675539944105575 / 2 ^ 50 - 0.6\<bar> < (1 / 10 ^ 15 :: real)"
proof -
  note facts = scenario_A_facts [OF assms]
  note run = four_bar_run [OF facts(1-4) facts(6) facts(7)]
  let ?e = "\<lparr> breakout_time = Time (df ! 1), retest_time = Time (df ! 2),
              takeoff_time = Time (df ! 3), event_level = 100,
              close_at_takeoff = Close (df ! 3),
              return_from_level_pct = return_spec (Close (df ! 3)) 100,
              bars_to_retest = 1, bars_to_takeoff = 1,
              atr_at_takeoff = Some (vol_spec df 14 3) \<rparr>"
  have cand: "candidate_event df 100 (dbl 0.001) 20 20 (dbl 0.005) False atr_mult 1 2 3 ?e"
    unfolding candidate_event_alt using run(1-4) by blast
  have ret: "return_spec (Close (df ! 3)) 100 = Some (675539944105575 / 2 ^ 50)"
    unfolding facts(5) by (rule return_A)
  have near: "\<bar>675539944105575 / 2 ^ 50 - 0.6\<bar> < (1 / 10 ^ 15 :: real)"
    by simp
  from run(5) cand ret near show ?thesis by simp
qed

theorem scenario_A_one_event_witness:
  "map Close bars_A = [99, 101, dbl 100.2, dbl 100.6] \<and> Low (bars_A ! 2) = dbl 99.9
     \<and> High (bars_A ! 2) = dbl 100.05
     \<and> (\<exists>e. find_breakout_retests bars_A 100 (dbl 0.001) 20 20 (dbl 0.005) False 1 = Inr [e]
           \<and> breakout_time e = 20 \<and> retest_time e = 30 \<and> takeoff_time e = 40
           \<and> bars_to_retest e = 1 \<and> bars_to_takeoff e = 1
           \<and> return_from_level_pct e = Some (675539944105575 / 2 ^ 50))"
proof -
  from scenario_A_one_event [OF bars_A_scenario, of 1]
  obtain e where e: "find_breakout_retests bars_A 100 (dbl 0.001) 20 20 (dbl 0.005) False 1 = Inr [e]"
    "breakout_time e = Time (bars_A ! 1)" "retest_time e = Time (bars_A ! 2)"
    "takeoff_time e = Time (bars_A ! 3)" "bars_to_retest e = 1" "bars_to_takeoff e = 1"
    "return_from_level_pct e = Some (675539944105575 / 2 ^ 50)"
    by blast
  from e(2-4) have "breakout_time e = 20" "retest_time e = 30" "takeoff_time e = 40"
    unfolding bars_A_nth by simp_all
  with e bars_A_scenario show ?thesis by blast
qed

text \<open>
  C1 as the specification words it fails on scenario A: the return of the one event is
  neither the real number 0.6 nor the float that the literal 0.6 denotes.
\<close>

theorem scenario_A_return_is_not_0_6:
  "find_breakout_retests bars_A 100 (dbl 0.001) 20 20 (dbl 0.005) False 1 = Inr [event_A]
   \<and> return_from_level_pct event_A \<noteq> Some 0.6
   \<and> return_from_level_pct event_A \<noteq> Some (dbl 0.6)"
proof -
  note facts = scenario_A_facts [OF bars_A_scenario]
  have "find_breakout_retests bars_A 100 (dbl 0.001) 20 20 (dbl 0.005) False 1
          = Inr [\<lparr> breakout_time = Time (bars_A ! 1), retest_time = Time (bars_A ! 2),
                   takeoff_time = Time (bars_A ! 3), event_level = 100,
                   close_at_takeoff = Close (bars_A ! 3),
                   return_from_level_pct = return_spec (Close (bars_A ! 3)) 100,
                   bars_to_retest = 1, bars_to_takeoff = 1,
                   atr_at_takeoff = Some (vol_spec bars_A 14 3) \<rparr>]"
    by (rule four_bar_run(5) [OF facts(1-4) facts(6) facts(7)])
  also have "\<dots> = Inr [event_A]"
    unfolding facts(5) unfolding return_A unfolding event_A_def bars_A_nth by simp
  finally have run: "find_breakout_retests bars_A 100 (dbl 0.001) 20 20 (dbl 0.005) False 1
                       = Inr [event_A]" .
  have "return_from_level_pct event_A \<noteq> Some 0.6"
    by (simp add: event_A_def)
  moreover have "return_from_level_pct event_A \<noteq> Some (dbl 0.6)"
    unfolding dbl_literals by (simp add: event_A_def)
  ultimately show ?thesis using run by blast
qed

text \<open>
  C2. The scanner returns a list of events, and every event in it comes from a candidate
  whose positions satisfy breakout < retest \<le> breakout + max_retest_window and
  retest < takeoff \<le> retest + takeoff_window; the two bar counts of the event lie in the
  same bounds.
\<close>

theorem event_indices_within_windows:
  "\<exists>evs. find_breakout_retests df level tolerance_pct max_retest_window takeoff_window
            takeoff_pct use_atr atr_mult = Inr evs
     \<and> (\<forall>e\<in>set evs. \<exists>b r t.
           candidate_event df level tolerance_pct max_retest_window takeoff_window
             takeoff_pct use_atr atr_mult b r t e
           \<and> b < r \<and> int r \<le> int b + max_retest_window
           \<and> r < t \<and> int t \<le> int r + takeoff_window
           \<and> 0 < bars_to_retest e \<and> bars_to_retest e \<le> max_retest_window
           \<and> 0 < bars_to_takeoff e \<and> bars_to_takeoff e \<le> takeoff_window)"
proof -
  from emitted_events obtain evs
    where evs: "find_breakout_retests df level tolerance_pct max_retest_window takeoff_window
                  takeoff_pct use_atr atr_mult = Inr evs"
      "\<forall>e. e \<in> set evs \<longleftrightarrow>
         (\<exists>b r t. candidate_event df level tolerance_pct max_retest_window takeoff_window
                     takeoff_pct use_atr atr_mult b r t e)"
    by blast
  have "\<exists>b r t. candidate_event df level tolerance_pct max_retest_window takeoff_window
             takeoff_pct use_atr atr_mult b r t e
           \<and> b < r \<and> int r \<le> int b + max_retest_window
           \<and> r < t \<and> int t \<le> int r + takeoff_window
           \<and> 0 < bars_to_retest e \<and> bars_to_retest e \<le> max_retest_window
           \<and> 0 < bars_to_takeoff e \<and> bars_to_takeoff e \<le> takeoff_window"
    if "e \<in> set evs" for e
  proof -
    from that evs(2) obtain b r t
      where c: "candidate_event df level tolerance_pct max_retest_window takeoff_window
                  takeoff_pct use_atr atr_mult b r t e"
      by blast
    from candidate_event_indices(2,3) [OF c]
    have idx: "b < r" "int r \<le> int b + max_retest_window" "r < t"
      "int t \<le> int r + takeoff_window"
      by (simp_all add: in_window_def)
    from candidate_event_record [OF c]
    have "bars_to_retest e = int r - int b" "bars_to_takeoff e = int t - int r"
      by simp_all
    with idx c show ?thesis by auto
  qed
  with evs(1) show ?thesis by blast
qed

theorem event_indices_within_windows_witness:
  "\<exists>e b r t. find_breakout_retests bars_D 100 (dbl 0.001) 20 20 (dbl 0.005) False 1 = Inr [e]
     \<and> candidate_event bars_D 100 (dbl 0.001) 20 20 (dbl 0.005) False 1 b r t e
     \<and> b < r \<and> int r \<le> int b + 20 \<and> r < t \<and> int t \<le> int r + 20
     \<and> bars_to_retest e = 1 \<and> bars_to_takeoff e = 1"
proof -
  from event_indices_within_windows [of bars_D 100 "dbl 0.001" 20 20 "dbl 0.005" False 1]
  obtain evs where evs:
    "find_breakout_retests bars_D 100 (dbl 0.001) 20 20 (dbl 0.005) False 1 = Inr evs"
    "\<forall>e\<in>set evs. \<exists>b r t. candidate_event bars_D 100 (dbl 0.001) 20 20 (dbl 0.005) False 1 b r t e
           \<and> b < r \<and> int r \<le> int b + 20 \<and> r < t \<and> int t \<le> int r + 20
           \<and> 0 < bars_to_retest e \<and> bars_to_retest e \<le> 20
           \<and> 0 < bars_to_takeoff e \<and> bars_to_takeoff e \<le> 20"
    by blast
  from evs(1) four_bar_run(5) [OF bars_D_nth(6) bars_D_facts(1-5), of 1]
  obtain e where e: "evs = [e]" "bars_to_retest e = 1" "bars_to_takeoff e = 1"
    by simp
  with evs show ?thesis by auto
qed

text \<open>
  C3. Every event returned carries the derived fields of its candidate: the close at the
  takeoff position; the return, which is the float (close_at_takeoff / level - 1) * 100,
  each of the three operations rounded as the code rounds it (for the level 0 the
  quotient is no number, and neither is the return); the two bar counts as differences of
  the positions; and the value of the volatility series \<^verbatim>\<open>atr(df, 14)\<close> at the takeoff
  position.
\<close>

theorem event_fields_follow_formulas:
  "\<exists>evs a. find_breakout_retests df level tolerance_pct max_retest_window takeoff_window
              takeoff_pct use_atr atr_mult = Inr evs
     \<and> atr df 14 = Inr a
     \<and> (\<forall>e\<in>set evs. \<exists>b r t.
           candidate_event df level tolerance_pct max_retest_window takeoff_window
             takeoff_pct use_atr atr_mult b r t e
           \<and> close_at_takeoff e = Close (df ! t)
           \<and> return_from_level_pct e =
               finite_of (fmul (fsub (fdiv (Fin (close_at_takeoff e)) (Fin level)) (Fin 1))
                            (Fin 100))
           \<and> (level = 0 \<longrightarrow> return_from_level_pct e = None)
           \<and> bars_to_retest e = int r - int b
           \<and> bars_to_takeoff e = int t - int r
           \<and> t < length a \<and> atr_at_takeoff e = a ! t)"
proof -
  let ?a = "map (\<lambda>k. Some (vol_spec df 14 k)) [0..<length df]"
  from emitted_events obtain evs
    where evs: "find_breakout_retests df level tolerance_pct max_retest_window takeoff_window
                  takeoff_pct use_atr atr_mult = Inr evs"
      "\<forall>e. e \<in> set evs \<longleftrightarrow>
         (\<exists>b r t. candidate_event df level tolerance_pct max_retest_window takeoff_window
                     takeoff_pct use_atr atr_mult b r t e)"
    by blast
  have a: "atr df 14 = Inr ?a" by (simp add: atr_ok)
  have "\<exists>b r t. candidate_event df level tolerance_pct max_retest_window takeoff_window
             takeoff_pct use_atr atr_mult b r t e
           \<and> close_at_takeoff e = Close (df ! t)
           \<and> return_from_level_pct e =
               finite_of (fmul (fsub (fdiv (Fin (close_at_takeoff e)) (Fin level)) (Fin 1))
                            (Fin 100))
           \<and> (level = 0 \<longrightarrow> return_from_level_pct e = None)
           \<and> bars_to_retest e = int r - int b
           \<and> bars_to_takeoff e = int t - int r
           \<and> t < length ?a \<and> atr_at_takeoff e = ?a ! t"
    if "e \<in> set evs" for e
  proof -
    from that evs(2) obtain b r t
      where c: "candidate_event df level tolerance_pct max_retest_window takeoff_window
                  takeoff_pct use_atr atr_mult b r t e"
      by blast
    note t = candidate_event_indices(6) [OF c]
    note rec = candidate_event_record [OF c]
    from rec have close: "close_at_takeoff e = Close (df ! t)" by simp
    from rec have "return_from_level_pct e = return_spec (Close (df ! t)) level" by simp
    with close have ret: "return_from_level_pct e = return_spec (close_at_takeoff e) level"
      by simp
    then have ret': "return_from_level_pct e =
               finite_of (fmul (fsub (fdiv (Fin (close_at_takeoff e)) (Fin level)) (Fin 1))
                            (Fin 100))"
      by (simp only: return_spec_def)
    from ret have zero: "level = 0 \<longrightarrow> return_from_level_pct e = None"
      by (simp add: return_spec_level_0)
    from rec t
    have "bars_to_retest e = int r - int b" "bars_to_takeoff e = int t - int r"
      "t < length ?a" "atr_at_takeoff e = ?a ! t"
      by simp_all
    with c close ret' zero show ?thesis by blast
  qed
  with evs(1) a show ?thesis by blast
qed

theorem event_fields_follow_formulas_witness:
  "\<exists>e a. find_breakout_retests bars_D 100 (dbl 0.001) 20 20 (dbl 0.005) False 1 = Inr [e]
     \<and> atr bars_D 14 = Inr a
     \<and> close_at_takeoff e = 100.75
     \<and> return_from_level_pct e = Some (844424930131975 / 2 ^ 50)
     \<and> bars_to_retest e = 1 \<and> bars_to_takeoff e = 1
     \<and> atr_at_takeoff e = a ! 3"
proof -
  from event_fields_follow_formulas [of bars_D 100 "dbl 0.001" 20 20 "dbl 0.005" False 1]
  obtain evs a where evs:
    "find_breakout_retests bars_D 100 (dbl 0.001) 20 20 (dbl 0.005) False 1 = Inr evs"
    "atr bars_D 14 = Inr a"
    "\<forall>e\<in>set evs. \<exists>b r t. candidate_event bars_D 100 (dbl 0.001) 20 20 (dbl 0.005) False 1 b r t e
           \<and> close_at_takeoff e = Close (bars_D ! t)
           \<and> return_from_level_pct e =
               finite_of (fmul (fsub (fdiv (Fin (close_at_takeoff e)) (Fin 100)) (Fin 1))
                            (Fin 100))
           \<and> ((100::real) = 0 \<longrightarrow> return_from_level_pct e = None)
           \<and> bars_to_retest e = int r - int b
           \<and> bars_to_takeoff e = int t - int r
           \<and> t < length a \<and> atr_at_takeoff e = a ! t"
    by blast
  from evs(1) four_bar_run(5) [OF bars_D_nth(6) bars_D_facts(1-5), of 1]
  obtain e where e: "evs = [e]" "bars_to_retest e = 1" "bars_to_takeoff e = 1"
    by simp
  from evs(3) e(1) obtain b r t
    where brt: "candidate_event bars_D 100 (dbl 0.001) 20 20 (dbl 0.005) False 1 b r t e"
      "close_at_takeoff e = Close (bars_D ! t)"
      "return_from_level_pct e =
         finite_of (fmul (fsub (fdiv (Fin (close_at_takeoff e)) (Fin 100)) (Fin 1)) (Fin 100))"
      "atr_at_takeoff e = a ! t"
    by auto
  from candidate_in_four_bars [OF brt(1)] have t: "t = 3" by (simp add: bars_D_nth)
  from brt(2) have close: "close_at_takeoff e = 100.75" unfolding t bars_D_nth by simp
  from brt(3) have "return_from_level_pct e = return_spec 100.75 100"
    unfolding close return_spec_def .
  then have "return_from_level_pct e = Some (844424930131975 / 2 ^ 50)"
    unfolding return_D .
  with brt(4) close e evs show ?thesis unfolding t by simp
qed

text \<open>
  C5. The retest search of a candidate with breakout position \<open>b\<close> returns without raising.
  When it finds a position, that is the smallest \<open>j\<close> with
  \<open>b + 1 \<le> j \<le> min last_index (b + max_retest_window)\<close> whose bar has its low at most
  level * (1 + tolerance), its high at least level * (1 - tolerance) and its close at least
  the level, the two bounds being the floats the code computes; a bar that touches the
  band and closes below the level is passed over. When no position of the window
  qualifies it finds none, and the body of the outer loop at \<open>b\<close> leaves the list of
  results as it was. The retest position of every candidate is the one this search
  returns.
\<close>

theorem retest_is_first_hold_in_window:
  "\<exists>res. find_retest df level tolerance_pct max_retest_window b = Inr res
     \<and> (case res of
          Some r \<Rightarrow>
            in_window (length df) b max_retest_window r \<and> retest_spec df level tolerance_pct r
            \<and> (\<forall>j. in_window (length df) b max_retest_window j \<and> j < r
                     \<longrightarrow> \<not> retest_spec df level tolerance_pct j)
        | None \<Rightarrow>
            (\<forall>j. in_window (length df) b max_retest_window j
                   \<longrightarrow> \<not> retest_spec df level tolerance_pct j)
            \<and> (1 \<le> b \<and> b < length df \<longrightarrow>
                  (\<forall>a results. scan_bar df a level tolerance_pct max_retest_window
                     takeoff_window takeoff_pct use_atr atr_mult b results = Inr results)))
     \<and> (\<forall>r t e. candidate_event df level tolerance_pct max_retest_window takeoff_window
                    takeoff_pct use_atr atr_mult b r t e \<longrightarrow> res = Some r)"
proof -
  from find_retest_total obtain res
    where res: "find_retest df level tolerance_pct max_retest_window b = Inr res"
    by blast
  have cand: "\<forall>r t e. candidate_event df level tolerance_pct max_retest_window takeoff_window
                    takeoff_pct use_atr atr_mult b r t e \<longrightarrow> res = Some r"
    using res by (simp add: candidate_event_def)
  show ?thesis
  proof (cases res)
    case None
    with res have no: "\<forall>j. in_window (length df) b max_retest_window j
                   \<longrightarrow> \<not> retest_spec df level tolerance_pct j"
      by (simp add: find_retest_None)
    have "scan_bar df a level tolerance_pct max_retest_window
            takeoff_window takeoff_pct use_atr atr_mult b results = Inr results"
      if "1 \<le> b \<and> b < length df" for a results
    proof -
      from that have "b - 1 < length df" "b < length df" by auto
      with res None show ?thesis by (simp add: scan_bar_def iloc_in)
    qed
    with res None no cand show ?thesis by simp
  next
    case (Some r)
    with res have "in_window (length df) b max_retest_window r
        \<and> retest_spec df level tolerance_pct r
        \<and> (\<forall>j. in_window (length df) b max_retest_window j \<and> j < r
                 \<longrightarrow> \<not> retest_spec df level tolerance_pct j)"
      by (simp add: find_retest_Some)
    with res Some cand show ?thesis by simp
  qed
qed

theorem retest_is_first_hold_in_window_witness:
  "find_retest bars_B 100 (dbl 0.001) 20 1 = Inr (Some 3)
   \<and> find_retest bars_B 100 (dbl 0.001) 1 1 = Inr None
   \<and> scan_bar bars_B [] 100 (dbl 0.001) 1 20 (dbl 0.005) False 1 1 [] = Inr []
   \<and> find_retest bars_low_edge 1000 (dbl 0.001) 20 1 = Inr None"
proof -
  from retest_is_first_hold_in_window
         [where df = bars_B and level = 100 and tolerance_pct = "dbl 0.001"
            and max_retest_window = 20 and b = 1 and takeoff_window = 20
            and takeoff_pct = "dbl 0.005" and use_atr = False and atr_mult = 1]
  obtain res where A: "find_retest bars_B 100 (dbl 0.001) 20 1 = Inr res"
    "case res of
       Some r \<Rightarrow>
         in_window (length bars_B) 1 20 r \<and> retest_spec bars_B 100 (dbl 0.001) r
         \<and> (\<forall>j. in_window (length bars_B) 1 20 j \<and> j < r
                  \<longrightarrow> \<not> retest_spec bars_B 100 (dbl 0.001) j)
     | None \<Rightarrow>
         (\<forall>j. in_window (length bars_B) 1 20 j \<longrightarrow> \<not> retest_spec bars_B 100 (dbl 0.001) j)
         \<and> (1 \<le> (1::nat) \<and> 1 < length bars_B \<longrightarrow>
               (\<forall>a results. scan_bar bars_B a 100 (dbl 0.001) 20 20 (dbl 0.005) False 1 1
                                results = Inr results))"
    by blast
  have "res = Some 3"
  proof (cases res)
    case None
    with A(2) bars_B_facts show ?thesis
      by (auto simp: bars_B_nth(6) in_window_small)
  next
    case (Some r)
    with A(2) bars_B_facts show ?thesis
      by (auto simp: bars_B_nth(6) in_window_small)
  qed
  with A(1) have a: "find_retest bars_B 100 (dbl 0.001) 20 1 = Inr (Some 3)" by simp
  from retest_is_first_hold_in_window
         [where df = bars_B and level = 100 and tolerance_pct = "dbl 0.001"
            and max_retest_window = 1 and b = 1 and takeoff_window = 20
            and takeoff_pct = "dbl 0.005" and use_atr = False and atr_mult = 1]
  obtain res' where B: "find_retest bars_B 100 (dbl 0.001) 1 1 = Inr res'"
    "case res' of
       Some r \<Rightarrow>
         in_window (length bars_B) 1 1 r \<and> retest_spec bars_B 100 (dbl 0.001) r
         \<and> (\<forall>j. in_window (length bars_B) 1 1 j \<and> j < r
                  \<longrightarrow> \<not> retest_spec bars_B 100 (dbl 0.001) j)
     | None \<Rightarrow>
         (\<forall>j. in_window (length bars_B) 1 1 j \<longrightarrow> \<not> retest_spec bars_B 100 (dbl 0.001) j)
         \<and> (1 \<le> (1::nat) \<and> 1 < length bars_B \<longrightarrow>
               (\<forall>a results. scan_bar bars_B a 100 (dbl 0.001) 1 20 (dbl 0.005) False 1 1
                                results = Inr results))"
    by blast
  have none: "res' = None"
  proof (cases res')
    case None
    then show ?thesis .
  next
    case (Some r)
    with B(2) bars_B_facts show ?thesis
      by (auto simp: bars_B_nth(6) in_window_small)
  qed
  with B(2) have b: "scan_bar bars_B [] 100 (dbl 0.001) 1 20 (dbl 0.005) False 1 1 [] = Inr []"
    by (simp add: bars_B_nth(6))
  from retest_is_first_hold_in_window
         [where df = bars_low_edge and level = 1000 and tolerance_pct = "dbl 0.001"
            and max_retest_window = 20 and b = 1 and takeoff_window = 20
            and takeoff_pct = "dbl 0.005" and use_atr = False and atr_mult = 1]
  obtain res'' where C: "find_retest bars_low_edge 1000 (dbl 0.001) 20 1 = Inr res''"
    "case res'' of
       Some r \<Rightarrow>
         in_window (length bars_low_edge) 1 20 r \<and> retest_spec bars_low_edge 1000 (dbl 0.001) r
         \<and> (\<forall>j. in_window (length bars_low_edge) 1 20 j \<and> j < r
                  \<longrightarrow> \<not> retest_spec bars_low_edge 1000 (dbl 0.001) j)
     | None \<Rightarrow>
         (\<forall>j. in_window (length bars_low_edge) 1 20 j
                \<longrightarrow> \<not> retest_spec bars_low_edge 1000 (dbl 0.001) j)
         \<and> (1 \<le> (1::nat) \<and> 1 < length bars_low_edge \<longrightarrow>
               (\<forall>a results. scan_bar bars_low_edge a 1000 (dbl 0.001) 20 20 (dbl 0.005) False 1
                                1 results = Inr results))"
    by blast
  have none': "res'' = None"
  proof (cases res'')
    case None
    then show ?thesis .
  next
    case (Some r)
    with C(2) bars_low_edge_facts(1) show ?thesis
      by (auto simp: bars_low_edge_nth(5) in_window_small)
  qed
  with a b B(1) C(1) none show ?thesis by simp
qed



text \<open>
  C7. When no position \<open>i \<ge> 1\<close> has close[i - 1] < level \<le> close[i], the scanner
  returns the empty list of events.
\<close>

theorem no_crossing_no_events:
  assumes "\<forall>i. 1 \<le> i \<and> i < length df \<longrightarrow> \<not> (Close (df ! (i - 1)) < level \<and> level \<le> Close (df ! i))"
  shows "find_breakout_retests df level tolerance_pct max_retest_window takeoff_window
           takeoff_pct use_atr atr_mult = Inr []"
proof -
  from emitted_events obtain evs
    where evs: "find_breakout_retests df level tolerance_pct max_retest_window takeoff_window
                  takeoff_pct use_atr atr_mult = Inr evs"
      "\<forall>e. e \<in> set evs \<longleftrightarrow>
         (\<exists>b r t. candidate_event df level tolerance_pct max_retest_window takeoff_window
                     takeoff_pct use_atr atr_mult b r t e)"
    by blast
  have "\<not> breakout df level b" for b
    using assms by (auto simp: breakout_def)
  then have "e \<notin> set evs" for e
    using evs(2) by (simp add: candidate_event_def)
  then have "evs = []" by (cases evs) auto
  with evs(1) show ?thesis by simp
qed

theorem no_crossing_no_events_witness:
  "\<not> (\<exists>i. 1 \<le> i \<and> i < length bars_flat
          \<and> Close (bars_flat ! (i - 1)) < 100 \<and> 100 \<le> Close (bars_flat ! i))
   \<and> find_breakout_retests bars_flat 100 (dbl 0.001) 20 20 (dbl 0.005) True 1 = Inr []"
proof -
  have flat: "\<forall>i. 1 \<le> i \<and> i < length bars_flat
        \<longrightarrow> \<not> (Close (bars_flat ! (i - 1)) < 100 \<and> 100 \<le> Close (bars_flat ! i))"
    by (simp add: bars_flat_close)
  from no_crossing_no_events [OF flat] flat show ?thesis by blast
qed

text \<open>
  C8. With fewer than two bars the scanner returns the empty list of events; the estimator
  (for a window of at least one bar) returns a series as long as the input, the empty
  series for the empty input. Neither raises.
\<close>

theorem short_input_gives_no_events:
  assumes "length df < 2" and "1 \<le> W"
  shows "find_breakout_retests df level tolerance_pct max_retest_window takeoff_window
           takeoff_pct use_atr atr_mult = Inr []
         \<and> (\<exists>a. atr df W = Inr a \<and> length a = length df)
         \<and> atr [] W = Inr []"
proof -
  have no_pairs: "[1 ..< length df] = []" using assms(1) by simp
  have "find_breakout_retests df level tolerance_pct max_retest_window takeoff_window
           takeoff_pct use_atr atr_mult = Inr []"
    unfolding find_breakout_retests_def no_pairs by (simp add: atr_ok)
  moreover have "\<exists>a. atr df W = Inr a \<and> length a = length df"
    using assms(2) by (simp add: atr_ok)
  moreover have "atr [] W = Inr []"
    using assms(2) by (simp add: atr_ok)
  ultimately show ?thesis by blast
qed

theorem short_input_gives_no_events_witness:
  "length [bars_D ! 0] < 2 \<and> (1::int) \<le> 14
     \<and> find_breakout_retests [bars_D ! 0] 100 (dbl 0.001) 20 20 (dbl 0.005) True 1 = Inr []
     \<and> find_breakout_retests [] 100 (dbl 0.001) 20 20 (dbl 0.005) True 1 = Inr []
     \<and> atr [] 14 = Inr []"
proof -
  have l1: "length [bars_D ! 0] < 2" and l0: "length ([] :: bar list) < 2" and W: "(1::int) \<le> 14"
    by simp_all
  from short_input_gives_no_events [OF l1 W] short_input_gives_no_events [OF l0 W] l1 W
  show ?thesis by blast
qed



end
